theory Spec2Isabelle
  imports Main "HOL-Library.Sublist"
begin

section \<open>Strings as Python sees them\<close>

text \<open>
  Texts are lists of characters; a character is a code point below 256. The helpers
  below follow the Python string operations the scripts use.
\<close>

text \<open>\<^verbatim>\<open>s.startswith(p)\<close>.\<close>

fun startswith :: "string \<Rightarrow> string \<Rightarrow> bool" where
  "startswith s [] = True"
| "startswith [] (p # ps) = False"
| "startswith (c # cs) (p # ps) = (c = p \<and> startswith cs ps)"

text \<open>\<^verbatim>\<open>m in s\<close> for strings: \<open>m\<close> occurs in \<open>s\<close> as a contiguous substring.\<close>

fun contains :: "string \<Rightarrow> string \<Rightarrow> bool" where
  "contains [] m = (m = [])"
| "contains (c # cs) m = (startswith (c # cs) m \<or> contains cs m)"

text \<open>
  \<^verbatim>\<open>s[:k]\<close> for a Python integer \<open>k\<close>: a non-negative bound keeps the first \<open>k\<close>
  characters, a negative one drops the last \<open>-k\<close>.
\<close>

definition slice_to :: "'a list \<Rightarrow> int \<Rightarrow> 'a list" where
  "slice_to s k = (if 0 \<le> k then take (nat k) s else take (length s - nat (- k)) s)"

section \<open>Pairs and the pair filter (dev/extract_pairs.py)\<close>

record pair =
  requirement :: string
  code :: string
  provider :: string
  pair_type :: string
  source_file :: string

text \<open>
  \<^verbatim>\<open>filter_pairs\<close>: the loop over \<open>pairs\<close>; a pair below the minimum is skipped, a pair
  above the maximum has its code cut by \<^verbatim>\<open>pair["code"][:max_code_length]\<close>. Both
  bounds are Python integers.
\<close>

fun filter_pairs :: "pair list \<Rightarrow> int \<Rightarrow> int \<Rightarrow> pair list" where
  "filter_pairs [] min_code_length max_code_length = []"
| "filter_pairs (p # ps) min_code_length max_code_length =
     (let code_length = int (length (code p)) in
      if code_length < min_code_length then filter_pairs ps min_code_length max_code_length
      else if code_length > max_code_length
        then p\<lparr>code := slice_to (code p) max_code_length\<rparr>
               # filter_pairs ps min_code_length max_code_length
        else p # filter_pairs ps min_code_length max_code_length)"

definition mk_pair :: "string \<Rightarrow> string \<Rightarrow> string \<Rightarrow> string \<Rightarrow> string \<Rightarrow> pair" where
  "mk_pair r c pv pt sf =
     \<lparr>requirement = r, code = c, provider = pv, pair_type = pt, source_file = sf\<rparr>"

section \<open>Character classes and string helpers\<close>

text \<open>
  The classes of Python's \<^verbatim>\<open>re\<close> on \<^verbatim>\<open>str\<close> patterns, restricted to code points below
  256: \<^verbatim>\<open>\s\<close> (also what \<^verbatim>\<open>strip()\<close> and \<^verbatim>\<open>split()\<close> treat as blank), \<^verbatim>\<open>\d\<close> and \<^verbatim>\<open>\w\<close>.
\<close>

definition is_space :: "char \<Rightarrow> bool" where
  "is_space c = (let n = (of_char c :: nat) in
     (9 \<le> n \<and> n \<le> 13) \<or> (28 \<le> n \<and> n \<le> 32) \<or> n = 133 \<or> n = 160)"

definition is_digit :: "char \<Rightarrow> bool" where
  "is_digit c = (let n = (of_char c :: nat) in 48 \<le> n \<and> n \<le> 57)"

definition is_upper_az :: "char \<Rightarrow> bool" where
  "is_upper_az c = (let n = (of_char c :: nat) in 65 \<le> n \<and> n \<le> 90)"

definition is_lower_az :: "char \<Rightarrow> bool" where
  "is_lower_az c = (let n = (of_char c :: nat) in 97 \<le> n \<and> n \<le> 122)"

definition is_word :: "char \<Rightarrow> bool" where
  "is_word c = (let n = (of_char c :: nat) in
     is_digit c \<or> is_upper_az c \<or> is_lower_az c \<or> n = 95 \<or> n = 170 \<or> n = 178 \<or> n = 179
     \<or> n = 181 \<or> n = 185 \<or> n = 186 \<or> (188 \<le> n \<and> n \<le> 190) \<or> (192 \<le> n \<and> n \<le> 214)
     \<or> (216 \<le> n \<and> n \<le> 246) \<or> (248 \<le> n \<and> n \<le> 255))"

text \<open>\<^verbatim>\<open>str.lower()\<close>, character by character.\<close>

definition lower_char :: "char \<Rightarrow> char" where
  "lower_char c = (let n = (of_char c :: nat) in
     if is_upper_az c \<or> (192 \<le> n \<and> n \<le> 222 \<and> n \<noteq> 215) then char_of (n + 32) else c)"

definition lower :: "string \<Rightarrow> string" where
  "lower s = map lower_char s"

text \<open>
  \<^verbatim>\<open>str.upper()\<close>. The sharp s becomes \<^verbatim>\<open>SS\<close>. The capitals of the micro sign and of
  y with diaeresis have code points above 255 (U+039C, U+0178), which a character here
  cannot hold: these two are left as they are.
\<close>

definition upper_char :: "char \<Rightarrow> string" where
  "upper_char c = (let n = (of_char c :: nat) in
     if is_lower_az c \<or> (224 \<le> n \<and> n \<le> 254 \<and> n \<noteq> 247) then [char_of (n - 32)]
     else if n = 223 then ''SS'' else [c])"

definition upper :: "string \<Rightarrow> string" where
  "upper s = concat (map upper_char s)"

text \<open>\<^verbatim>\<open>s.split(d)\<close> for a one-character separator: never empty.\<close>

fun split_on :: "char \<Rightarrow> string \<Rightarrow> string list" where
  "split_on d [] = [[]]"
| "split_on d (c # cs) =
     (if c = d then [] # split_on d cs
      else (case split_on d cs of [] \<Rightarrow> [[c]] | l # ls \<Rightarrow> (c # l) # ls))"

text \<open>\<^verbatim>\<open>s.strip()\<close>.\<close>

definition strip :: "string \<Rightarrow> string" where
  "strip s = rev (dropWhile is_space (rev (dropWhile is_space s)))"

text \<open>
  \<^verbatim>\<open>s.split()\<close>: the maximal runs of non-blank characters; \<open>cur\<close> is the run being
  read, reversed.
\<close>

fun split_ws_aux :: "string \<Rightarrow> string \<Rightarrow> string list" where
  "split_ws_aux cur [] = (if cur = [] then [] else [rev cur])"
| "split_ws_aux cur (c # cs) =
     (if is_space c then (if cur = [] then split_ws_aux [] cs else rev cur # split_ws_aux [] cs)
      else split_ws_aux (c # cur) cs)"

definition split_ws :: "string \<Rightarrow> string list" where
  "split_ws s = split_ws_aux [] s"

text \<open>\<^verbatim>\<open>sep.join(parts)\<close>.\<close>

fun join :: "string \<Rightarrow> string list \<Rightarrow> string" where
  "join sep [] = []"
| "join sep [x] = x"
| "join sep (x # y # ys) = x @ sep @ join sep (y # ys)"

section \<open>Scanning a text with a pattern\<close>

text \<open>
  A match of a pattern in a text: where it starts, the text matched (\<^verbatim>\<open>group(0)\<close>), the
  captured groups, and the text before (\<^verbatim>\<open>text[:start]\<close>) and after it (\<^verbatim>\<open>text[end:]\<close>).
\<close>

record 'g rmatch =
  m_start :: nat
  m_text :: string
  m_groups :: 'g
  m_before :: string
  m_after :: string

text \<open>
  A pattern is given by its matcher at one position: from the text before the position,
  reversed (for look-behind), and the text from the position on, it returns the length of
  the match and the groups. \<^verbatim>\<open>finditer\<close> tries the positions from left to right and
  resumes after the end of each match. No pattern of these scripts matches the empty
  string; an answer of length 0 is treated as no match.
\<close>

function finditer_from :: "(string \<Rightarrow> string \<Rightarrow> (nat \<times> 'g) option) \<Rightarrow> string \<Rightarrow> string \<Rightarrow> 'g rmatch list" where
  "finditer_from m pre [] = []"
| "finditer_from m pre (c # cs) =
     (case m pre (c # cs) of
        None \<Rightarrow> finditer_from m (c # pre) cs
      | Some (n, g) \<Rightarrow>
          if 0 < n \<and> n \<le> length (c # cs)
          then \<lparr>m_start = length pre, m_text = take n (c # cs), m_groups = g,
                 m_before = rev pre, m_after = drop n (c # cs)\<rparr>
               # finditer_from m (rev (take n (c # cs)) @ pre) (drop n (c # cs))
          else finditer_from m (c # pre) cs)"
  by pat_completeness auto
termination
  by (relation "measure (\<lambda>(m, pre, rest). length rest)") auto

definition finditer :: "(string \<Rightarrow> string \<Rightarrow> (nat \<times> 'g) option) \<Rightarrow> string \<Rightarrow> 'g rmatch list" where
  "finditer m s = finditer_from m [] s"

text \<open>\<^verbatim>\<open>re.search\<close>: the first match, if any.\<close>

definition search :: "(string \<Rightarrow> string \<Rightarrow> (nat \<times> 'g) option) \<Rightarrow> string \<Rightarrow> 'g rmatch option" where
  "search m s = (case finditer m s of [] \<Rightarrow> None | x # xs \<Rightarrow> Some x)"

text \<open>Pieces of patterns. Each returns what is left of the text after the piece.\<close>

text \<open>A literal.\<close>

definition lit :: "string \<Rightarrow> string \<Rightarrow> string option" where
  "lit l s = (if startswith s l then Some (drop (length l) s) else None)"

text \<open>
  \<^verbatim>\<open>\s*\<close> and \<^verbatim>\<open>\s+\<close> before a character that is not blank: the whole run of blanks is
  taken, since giving one back cannot help the next piece.
\<close>

definition spaces0 :: "string \<Rightarrow> string" where
  "spaces0 s = dropWhile is_space s"

definition spaces1 :: "string \<Rightarrow> string option" where
  "spaces1 s = (case s of [] \<Rightarrow> None | c # cs \<Rightarrow> if is_space c then Some (dropWhile is_space cs) else None)"

text \<open>
  \<^verbatim>\<open>"([^"]+)"\<close>: a double quote, the characters up to the next double quote (at least
  one; line breaks included), and that quote. Returns the group and the rest.
\<close>

definition quoted_label :: "string \<Rightarrow> (string \<times> string) option" where
  "quoted_label s =
     (case s of
        [] \<Rightarrow> None
      | c # cs \<Rightarrow>
          if c \<noteq> CHR ''\"'' then None
          else (let lab = takeWhile (\<lambda>x. x \<noteq> CHR ''\"'') cs in
                if lab = [] then None
                else (case dropWhile (\<lambda>x. x \<noteq> CHR ''\"'') cs of
                        [] \<Rightarrow> None
                      | q # after \<Rightarrow> Some (lab, after))))"

section \<open>The block extractor (dev/extract_pairs.py)\<close>

text \<open>
  The header pattern of \<^verbatim>\<open>extract_hcl_blocks\<close>. The block type is spliced into the
  pattern; it is read here as a literal, which is what the pattern means when the block
  type has no character special to \<^verbatim>\<open>re\<close> (\<open>plain_keyword\<close>).
  For \<^verbatim>\<open>variable\<close>, \<^verbatim>\<open>output\<close> and \<^verbatim>\<open>locals\<close> the pattern is
  \<^verbatim>\<open>block_type\s+"([^"]+)"\s*{\<close>, otherwise \<^verbatim>\<open>block_type\s+"([^"]+)"\s+"([^"]+)"\s*{\<close>.
\<close>

definition plain_keyword :: "string \<Rightarrow> bool" where
  "plain_keyword k = (k \<noteq> [] \<and> (\<forall>c \<in> set k. is_digit c \<or> is_upper_az c \<or> is_lower_az c \<or> c = CHR ''_''))"

definition single_label :: "string \<Rightarrow> bool" where
  "single_label block_type = (block_type \<in> set [''variable'', ''output'', ''locals''])"

definition header_one :: "string \<Rightarrow> string \<Rightarrow> string \<Rightarrow> (nat \<times> string list) option" where
  "header_one block_type pre s =
     (case lit block_type s of None \<Rightarrow> None | Some s1 \<Rightarrow>
      case spaces1 s1 of None \<Rightarrow> None | Some s2 \<Rightarrow>
      case quoted_label s2 of None \<Rightarrow> None | Some (g1, s3) \<Rightarrow>
      case lit ''{'' (spaces0 s3) of None \<Rightarrow> None | Some s4 \<Rightarrow>
        Some (length s - length s4, [g1]))"

definition header_two :: "string \<Rightarrow> string \<Rightarrow> string \<Rightarrow> (nat \<times> string list) option" where
  "header_two block_type pre s =
     (case lit block_type s of None \<Rightarrow> None | Some s1 \<Rightarrow>
      case spaces1 s1 of None \<Rightarrow> None | Some s2 \<Rightarrow>
      case quoted_label s2 of None \<Rightarrow> None | Some (g1, s3) \<Rightarrow>
      case spaces1 s3 of None \<Rightarrow> None | Some s4 \<Rightarrow>
      case quoted_label s4 of None \<Rightarrow> None | Some (g2, s5) \<Rightarrow>
      case lit ''{'' (spaces0 s5) of None \<Rightarrow> None | Some s6 \<Rightarrow>
        Some (length s - length s6, [g1, g2]))"

definition header_pattern :: "string \<Rightarrow> string \<Rightarrow> string \<Rightarrow> (nat \<times> string list) option" where
  "header_pattern block_type =
     (if single_label block_type then header_one block_type else header_two block_type)"

text \<open>
  The brace loop, started after the opening brace with \<open>brace_count = 1\<close>: it returns the
  characters it walked over when the count came back to zero, and \<open>None\<close> when the text
  ended first (\<^verbatim>\<open>brace_count\<close> is then still positive and the candidate is not appended).
\<close>

fun close_braces :: "nat \<Rightarrow> string \<Rightarrow> string option" where
  "close_braces brace_count [] = (if brace_count = 0 then Some [] else None)"
| "close_braces brace_count (c # cs) =
     (if brace_count = 0 then Some []
      else map_option ((#) c)
             (close_braces (if c = CHR ''{'' then brace_count + 1
                            else if c = CHR ''}'' then brace_count - 1
                            else brace_count) cs))"

record block =
  b_type :: string
  b_name :: string
  body :: string
  full_block :: string

text \<open>What one header match contributes: a block, or nothing.\<close>

definition block_of_match :: "string \<Rightarrow> string list rmatch \<Rightarrow> block list" where
  "block_of_match block_type m =
     (case close_braces 1 (m_after m) of
        None \<Rightarrow> []
      | Some walked \<Rightarrow>
          (let bd = CHR ''{'' # walked in
           if single_label block_type
           then [\<lparr>b_type = block_type, b_name = m_groups m ! 0, body = bd,
                   full_block = butlast (m_text m) @ bd\<rparr>]
           else [\<lparr>b_type = m_groups m ! 0, b_name = m_groups m ! 1, body = bd,
                   full_block = butlast (m_text m) @ bd\<rparr>]))"

definition extract_hcl_blocks :: "string \<Rightarrow> string \<Rightarrow> block list" where
  "extract_hcl_blocks content block_type =
     concat (map (block_of_match block_type) (finditer (header_pattern block_type) content))"

section \<open>The resource synthesizer (dev/extract_pairs.py)\<close>

definition RESOURCE_TYPE_MAP :: "(string \<times> string) list" where
  "RESOURCE_TYPE_MAP =
    [(''aws_vpc'', ''AWS VPC (Virtual Private Cloud)''),
     (''aws_subnet'', ''AWS subnet''),
     (''aws_security_group'', ''AWS security group''),
     (''aws_iam_role'', ''AWS IAM role''),
     (''aws_iam_policy'', ''AWS IAM policy''),
     (''aws_s3_bucket'', ''AWS S3 bucket''),
     (''aws_eks_cluster'', ''AWS EKS Kubernetes cluster''),
     (''aws_rds_instance'', ''AWS RDS database instance''),
     (''aws_lambda_function'', ''AWS Lambda function''),
     (''aws_instance'', ''AWS EC2 instance''),
     (''aws_route_table'', ''AWS route table''),
     (''aws_internet_gateway'', ''AWS internet gateway''),
     (''aws_nat_gateway'', ''AWS NAT gateway''),
     (''aws_eip'', ''AWS Elastic IP''),
     (''aws_lb'', ''AWS load balancer''),
     (''aws_autoscaling_group'', ''AWS autoscaling group''),
     (''aws_launch_template'', ''AWS launch template''),
     (''google_compute_instance'', ''GCP compute instance''),
     (''google_container_cluster'', ''GCP GKE Kubernetes cluster''),
     (''google_compute_network'', ''GCP VPC network''),
     (''google_compute_subnetwork'', ''GCP subnetwork''),
     (''google_compute_firewall'', ''GCP firewall rule''),
     (''google_storage_bucket'', ''GCP Cloud Storage bucket''),
     (''google_sql_database_instance'', ''GCP Cloud SQL database instance''),
     (''azurerm_virtual_network'', ''Azure virtual network''),
     (''azurerm_subnet'', ''Azure subnet''),
     (''azurerm_kubernetes_cluster'', ''Azure AKS Kubernetes cluster''),
     (''azurerm_resource_group'', ''Azure resource group''),
     (''azurerm_storage_account'', ''Azure storage account''),
     (''azurerm_virtual_machine'', ''Azure virtual machine'')]"

definition parse_resource_type :: "string \<Rightarrow> string" where
  "parse_resource_type resource_type =
     (case map_of RESOURCE_TYPE_MAP resource_type of
        Some phrase \<Rightarrow> phrase
      | None \<Rightarrow>
          (let parts = split_on CHR ''_'' resource_type in
           if length parts \<ge> 2 then upper (hd parts) @ '' '' @ join '' '' (tl parts)
           else resource_type))"

text \<open>\<^verbatim>\<open>replicas\s*=\s*(\d+)\<close>; the group is the whole run of digits.\<close>

definition replicas_pattern :: "string \<Rightarrow> string \<Rightarrow> (nat \<times> string) option" where
  "replicas_pattern pre s =
     (case lit ''replicas'' s of None \<Rightarrow> None | Some s1 \<Rightarrow>
      case lit ''='' (spaces0 s1) of None \<Rightarrow> None | Some s2 \<Rightarrow>
        (let s3 = spaces0 s2; ds = takeWhile is_digit s3 in
         if ds = [] then None else Some (length s - length (dropWhile is_digit s3), ds)))"

text \<open>
  The requirement of one resource block, built as the source builds it: the opening
  sentence, then one \<^verbatim>\<open>requirement += ...\<close> after another.
\<close>

definition add_cidr :: "string \<Rightarrow> string \<Rightarrow> string" where
  "add_cidr bd req =
     (if contains bd ''cidr_block'' then req @ '' with configurable CIDR block''
      else req)"

definition add_dns_hostnames :: "string \<Rightarrow> string \<Rightarrow> string" where
  "add_dns_hostnames bd req =
     (if contains bd ''enable_dns_hostnames'' \<and> contains bd ''= true''
      then req @ '' and DNS hostnames enabled'' else req)"

definition add_dns_support :: "string \<Rightarrow> string \<Rightarrow> string" where
  "add_dns_support bd req =
     (if contains bd ''enable_dns_support'' \<and> contains bd ''= true''
      then req @ '' and DNS support enabled'' else req)"

definition add_replicas :: "string \<Rightarrow> string \<Rightarrow> string" where
  "add_replicas bd req =
     (if contains bd ''replicas''
      then (case search replicas_pattern bd of
              Some replicas_match \<Rightarrow> req @ '' with '' @ m_groups replicas_match @ '' replicas''
            | None \<Rightarrow> req)
      else req)"

definition resource_requirement :: "block \<Rightarrow> string" where
  "resource_requirement resource =
     (let resource_desc = parse_resource_type (b_type resource);
          req = ''Create a '' @ resource_desc @ '' resource named '' @ [CHR 0x27]
                          @ b_name resource @ [CHR 0x27];
          bd = body resource
      in add_replicas bd (add_dns_support bd (add_dns_hostnames bd (add_cidr bd req))))"

definition extract_resource_inferred_pairs :: "string \<Rightarrow> string \<Rightarrow> pair list" where
  "extract_resource_inferred_pairs content src =
     map (\<lambda>resource. \<lparr>requirement = resource_requirement resource, code = full_block resource,
                       provider = ''terraform'', pair_type = ''resource_inferred'',
                       source_file = src\<rparr>)
         (extract_hcl_blocks content ''resource'')"

section \<open>The Dockerfile synthesizer (dev/extract_pairs.py)\<close>

record docker_scan =
  base_image :: "string option"
  has_run :: bool
  has_copy :: bool
  has_env :: bool

text \<open>The body of the loop over the lines.\<close>

definition docker_line :: "string \<Rightarrow> docker_scan \<Rightarrow> docker_scan" where
  "docker_line raw st =
     (let line = strip raw in
      if startswith line ''FROM ''
        then st\<lparr>base_image := (if length (split_ws line) > 1 then Some (split_ws line ! 1) else None)\<rparr>
      else if startswith line ''RUN '' then st\<lparr>has_run := True\<rparr>
      else if startswith line ''COPY '' then st\<lparr>has_copy := True\<rparr>
      else if startswith line ''ENV '' then st\<lparr>has_env := True\<rparr>
      else st)"

definition docker_scan_lines :: "string list \<Rightarrow> docker_scan" where
  "docker_scan_lines ls =
     fold docker_line ls \<lparr>base_image = None, has_run = False, has_copy = False, has_env = False\<rparr>"

definition docker_details :: "docker_scan \<Rightarrow> string list" where
  "docker_details st =
     (if has_run st then [''with custom commands''] else [])
     @ (if has_copy st then [''copying application files''] else [])
     @ (if has_env st then [''setting environment variables''] else [])"

text \<open>\<^verbatim>\<open>if base_image:\<close> holds for a string that is not empty.\<close>

definition extract_docker_pairs :: "string \<Rightarrow> string \<Rightarrow> pair list" where
  "extract_docker_pairs content src =
     (let st = docker_scan_lines (split_on CHR ''\<newline>'' content) in
      case base_image st of
        None \<Rightarrow> []
      | Some img \<Rightarrow>
          if img = [] then []
          else (let req = ''Create a Dockerfile based on '' @ img;
                    details = docker_details st;
                    req = (if details \<noteq> [] then req @ '' '' @ join '', '' details
                                   else req)
                in [\<lparr>requirement = req, code = content, provider = ''docker'',
                      pair_type = ''dockerfile_inferred'', source_file = src\<rparr>]))"

text \<open>The lines the scan treats as \<^verbatim>\<open>FROM\<close> lines.\<close>

definition from_lines :: "string \<Rightarrow> string list" where
  "from_lines content =
     filter (\<lambda>l. startswith l ''FROM '') (map strip (split_on CHR ''\<newline>'' content))"

section \<open>The manifest synthesizers (dev/extract_pairs.py)\<close>

text \<open>
  A document as \<^verbatim>\<open>yaml.safe_load_all\<close> returns it: null, booleans, integers, strings,
  sequences and mappings (floats, dates and binaries are left out). A mapping is the list
  of its entries in order, with distinct keys.
\<close>

datatype yaml = YNull | YBool bool | YInt int | YStr string | YSeq "yaml list" | YMap "(yaml \<times> yaml) list"

text \<open>Python's truth value.\<close>

fun truthy :: "yaml \<Rightarrow> bool" where
  "truthy YNull = False"
| "truthy (YBool b) = b"
| "truthy (YInt i) = (i \<noteq> 0)"
| "truthy (YStr s) = (s \<noteq> [])"
| "truthy (YSeq xs) = (xs \<noteq> [])"
| "truthy (YMap kvs) = (kvs \<noteq> [])"

text \<open>\<^verbatim>\<open>d.get(key, default)\<close> and \<^verbatim>\<open>key in d\<close> for a string key.\<close>

definition get :: "(yaml \<times> yaml) list \<Rightarrow> string \<Rightarrow> yaml \<Rightarrow> yaml" where
  "get d k dflt = (case map_of d (YStr k) of Some v \<Rightarrow> v | None \<Rightarrow> dflt)"

definition has_key :: "(yaml \<times> yaml) list \<Rightarrow> string \<Rightarrow> bool" where
  "has_key d k = (map_of d (YStr k) \<noteq> None)"

function show_nat :: "nat \<Rightarrow> string" where
  "show_nat n = (if n < 10 then [char_of (48 + n)] else show_nat (n div 10) @ [char_of (48 + n mod 10)])"
  by pat_completeness auto
termination
  by (relation "measure id") auto

definition show_int :: "int \<Rightarrow> string" where
  "show_int i = (if i < 0 then CHR ''-'' # show_nat (nat (- i)) else show_nat (nat i))"

text \<open>
  What an f-string puts for a value. For a sequence or a mapping that is Python's
  \<^verbatim>\<open>repr\<close> of the collection, which is not modelled: \<open>None\<close>.
\<close>

fun fmt :: "yaml \<Rightarrow> string option" where
  "fmt YNull = Some ''None''"
| "fmt (YBool b) = Some (if b then ''True'' else ''False'')"
| "fmt (YInt i) = Some (show_int i)"
| "fmt (YStr s) = Some s"
| "fmt (YSeq xs) = None"
| "fmt (YMap kvs) = None"

text \<open>Appending texts either of which may be unmodelled.\<close>

definition app :: "string option \<Rightarrow> string option \<Rightarrow> string option" where
  "app a b = (case a of None \<Rightarrow> None | Some x \<Rightarrow> (case b of None \<Rightarrow> None | Some y \<Rightarrow> Some (x @ y)))"

text \<open>The clause \<^verbatim>\<open> named '{name}'\<close>.\<close>

definition named_clause :: "yaml \<Rightarrow> string option" where
  "named_clause name = app (Some ('' named '' @ [CHR 0x27])) (app (fmt name) (Some [CHR 0x27]))"

text \<open>
  \<^verbatim>\<open>metadata.get("name", "unnamed") if isinstance(metadata, dict) else "unnamed"\<close>.
\<close>

definition name_of :: "yaml \<Rightarrow> yaml" where
  "name_of metadata =
     (case metadata of YMap md \<Rightarrow> get md ''name'' (YStr ''unnamed'') | _ \<Rightarrow> YStr ''unnamed'')"

text \<open>
  The requirement of one document in \<^verbatim>\<open>extract_kubernetes_pairs\<close>. The outer \<open>None\<close>
  is a document the loop skips; the inner one a requirement with an unmodelled text.
\<close>

definition kubernetes_requirement :: "yaml \<Rightarrow> string option option" where
  "kubernetes_requirement doc =
     (case doc of
        YMap d \<Rightarrow>
          if d = [] then None
          else (let kind = get d ''kind'' (YStr []);
                    metadata = get d ''metadata'' (YMap []);
                    spec = get d ''spec'' (YMap [])
                in if \<not> truthy kind then None
                   else (let name = name_of metadata;
                             req = app (Some ''Create a Kubernetes '') (fmt kind);
                             req = (if name \<noteq> YStr ''unnamed''
                                            then app req (named_clause name)
                                            else req);
                             req =
                               (case spec of
                                  YMap sp \<Rightarrow>
                                    (let req =
                                           (if kind = YStr ''Deployment'' \<and> has_key sp ''replicas''
                                            then app req
                                                   (app (Some '' with '')
                                                      (app (fmt (get sp ''replicas'' YNull)) (Some '' replicas'')))
                                            else req)
                                     in if kind = YStr ''Service''
                                        then app req
                                               (app (Some '' of type '') (fmt (get sp ''type'' (YStr ''ClusterIP''))))
                                        else req)
                                | _ \<Rightarrow> req)
                         in Some (if kind = YStr ''Namespace''
                                    then app (Some ''Create a Kubernetes namespace'') (named_clause name)
                                  else if kind = YStr ''ConfigMap''
                                    then app (Some ''Create a Kubernetes ConfigMap'') (named_clause name)
                                  else if kind = YStr ''Secret''
                                    then app (Some ''Create a Kubernetes Secret'') (named_clause name)
                                  else req)))
      | _ \<Rightarrow> None)"

definition crossplane_requirement :: "yaml \<Rightarrow> string option option" where
  "crossplane_requirement doc =
     (case doc of
        YMap d \<Rightarrow>
          if d = [] then None
          else (let kind = get d ''kind'' (YStr []);
                    metadata = get d ''metadata'' (YMap [])
                in if \<not> truthy kind then None
                   else (let name = name_of metadata;
                             req = app (Some ''Create a Crossplane '') (fmt kind)
                         in Some (if name \<noteq> YStr ''unnamed''
                                  then app req (named_clause name)
                                  else req)))
      | _ \<Rightarrow> None)"

section \<open>Properties of the pair filter\<close>

lemma filter_pairs_bounds_aux:
  assumes "0 \<le> mx" and "mn \<le> mx"
  shows "\<forall>q \<in> set (filter_pairs ps mn mx). mn \<le> int (length (code q)) \<and> int (length (code q)) \<le> mx"
  using assms by (induction ps) (auto simp: Let_def slice_to_def)

lemma filter_pairs_map_aux:
  assumes "0 \<le> mx"
  shows "filter_pairs ps mn mx =
     map (\<lambda>p. if int (length (code p)) > mx then p\<lparr>code := take (nat mx) (code p)\<rparr> else p)
         (filter (\<lambda>p. \<not> int (length (code p)) < mn) ps)"
  using assms by (induction ps) (auto simp: Let_def slice_to_def)

text \<open>
  C3 (as stated, the claim fails when the minimum exceeds the maximum): with bounds
  10 and 5, a pair whose code has 12 characters is kept and cut to 5 characters, which
  is below the minimum.
\<close>

theorem filter_pairs_min_above_max_counterexample:
  "map code (filter_pairs [mk_pair ''r'' ''abcdefghijkl'' ''terraform'' ''t'' ''f.tf''] 10 5)
     = [''abcde'']
   \<and> int (length ''abcde'') < 10"
  by (simp add: mk_pair_def slice_to_def)

text \<open>
  C3 (amended): when \<open>0 \<le> max_code_length\<close> and \<open>min_code_length \<le> max_code_length\<close>,
  the filter keeps, in order, exactly the pairs whose code is not shorter than the
  minimum, replaces the code of each kept pair that is longer than the maximum by its
  prefix of exactly \<open>max_code_length\<close> characters, and every pair it emits has
  \<open>min_code_length \<le> len(code) \<le> max_code_length\<close>.
\<close>

theorem filter_pairs_bounds:
  assumes "0 \<le> max_code_length" and "min_code_length \<le> max_code_length"
  shows "filter_pairs ps min_code_length max_code_length =
           map (\<lambda>p. if int (length (code p)) > max_code_length
                     then p\<lparr>code := take (nat max_code_length) (code p)\<rparr> else p)
               (filter (\<lambda>p. \<not> int (length (code p)) < min_code_length) ps)
         \<and> (\<forall>p. int (length (code p)) > max_code_length \<longrightarrow>
                int (length (take (nat max_code_length) (code p))) = max_code_length)
         \<and> (\<forall>q \<in> set (filter_pairs ps min_code_length max_code_length).
                min_code_length \<le> int (length (code q)) \<and> int (length (code q)) \<le> max_code_length)"
proof (intro conjI)
  show "filter_pairs ps min_code_length max_code_length =
           map (\<lambda>p. if int (length (code p)) > max_code_length
                     then p\<lparr>code := take (nat max_code_length) (code p)\<rparr> else p)
               (filter (\<lambda>p. \<not> int (length (code p)) < min_code_length) ps)"
    using assms(1) by (rule filter_pairs_map_aux)
  show "\<forall>p. int (length (code p)) > max_code_length \<longrightarrow>
                int (length (take (nat max_code_length) (code p))) = max_code_length"
    using assms(1) by auto
  show "\<forall>q \<in> set (filter_pairs ps min_code_length max_code_length).
                min_code_length \<le> int (length (code q)) \<and> int (length (code q)) \<le> max_code_length"
    using assms by (rule filter_pairs_bounds_aux)
qed

theorem filter_pairs_bounds_witness:
  "(0::int) \<le> 5 \<and> (3::int) \<le> 5
   \<and> map code (filter_pairs [mk_pair ''r'' ''ab'' ''p'' ''t'' ''f'',
                             mk_pair ''r'' ''abcd'' ''p'' ''t'' ''f'',
                             mk_pair ''r'' ''abcdefgh'' ''p'' ''t'' ''f''] 3 5)
       = [''abcd'', ''abcde'']"
  using filter_pairs_bounds [of 5 3 "[mk_pair ''r'' ''ab'' ''p'' ''t'' ''f'',
                             mk_pair ''r'' ''abcd'' ''p'' ''t'' ''f'',
                             mk_pair ''r'' ''abcdefgh'' ''p'' ''t'' ''f'']"]
  by (simp add: mk_pair_def slice_to_def)

end
